theory Spec2Isabelle
  imports Main "HOL-Library.Char_ord" "HOL-Library.List_Lexorder" "HOL-Library.Multiset"
begin

section \<open>Strings and the library functions of backend/app.py\<close>

text \<open>
  A Python \<open>str\<close> is modelled by the list of bytes of its UTF-8 encoding, so
  \<open>s.encode()\<close> is the identity and the order on strings (lexicographic on bytes) is
  the code-point order Python sorts by. Not modelled: the replacement of malformed
  UTF-8 percent-escapes by U+FFFD in \<open>parse_qsl\<close>, and the non-ASCII cases of
  \<open>str.lower\<close>, \<open>str.strip\<close> and \<open>int\<close>.
\<close>

datatype error = HTTPException nat string | AttributeError | TypeError

abbreviation MissingSignature :: error where
  "MissingSignature \<equiv> HTTPException 400 ''no_hash''"

text \<open>
  The values \<open>json.loads\<close> returns. Python's \<open>None\<close> is \<open>JNull\<close>. A float is kept
  as what the code observes of it: whether it is zero and its \<open>str()\<close>. A dict is the
  list of its items (distinct keys).
\<close>

datatype json =
    JNull
  | JBool bool
  | JInt int
  | JFloat bool string
  | JStr string
  | JArr "json list"
  | JObj "(string \<times> json) list"

record claims =
  sub :: string
  name :: string
  iat :: int
  exp :: int
  tg_id :: json
  tg_username :: json

text \<open>
  The library functions the code calls and this development does not define:
  \<open>hmac.new(key, msg, hashlib.sha256).digest()\<close> (the bytes of the MAC),
  \<open>json.loads\<close> (\<open>None\<close> when it raises), \<open>jwt.encode(payload, secret, "HS256")\<close>
  and \<open>repr\<close> of a list or dict.
\<close>

record pylib =
  hmac_sha256 :: "string \<Rightarrow> string \<Rightarrow> string"
  json_loads :: "string \<Rightarrow> json option"
  jwt_encode :: "claims \<Rightarrow> string \<Rightarrow> string"
  py_repr :: "json \<Rightarrow> string"

subsection \<open>Digests\<close>

definition hexdigit :: "nat \<Rightarrow> char" where
  "hexdigit n = (if n < 10 then char_of (48 + n) else char_of (87 + n))"

text \<open>\<open>hexdigest()\<close>: two lower-case hexadecimal digits for each byte of the MAC.\<close>

definition hexdigest :: "string \<Rightarrow> string" where
  "hexdigest bs =
     concat (map (\<lambda>c. [hexdigit (of_char c div 16), hexdigit (of_char c mod 16)]) bs)"

subsection \<open>str methods and int()\<close>

definition lower_char :: "char \<Rightarrow> char" where
  "lower_char c = (if CHR ''A'' \<le> c \<and> c \<le> CHR ''Z'' then char_of (of_char c + (32::nat)) else c)"

definition lower :: "string \<Rightarrow> string" where
  "lower s = map lower_char s"

definition is_space :: "char \<Rightarrow> bool" where
  "is_space c = (let n = (of_char c :: nat) in (9 \<le> n \<and> n \<le> 13) \<or> (28 \<le> n \<and> n \<le> 32))"

definition strip :: "string \<Rightarrow> string" where
  "strip s = rev (dropWhile is_space (rev (dropWhile is_space s)))"

definition join :: "string \<Rightarrow> string list \<Rightarrow> string" where
  "join sep xs = (case xs of [] \<Rightarrow> [] | y # ys \<Rightarrow> y @ concat (map (\<lambda>z. sep @ z) ys))"

definition is_digit :: "char \<Rightarrow> bool" where
  "is_digit c = (CHR ''0'' \<le> c \<and> c \<le> CHR ''9'')"

definition digit_val :: "char \<Rightarrow> int" where
  "digit_val c = int (of_char c) - 48"

text \<open>
  Digits with single underscores between them, as \<open>int()\<close> accepts:
  \<open>digits_us True\<close> expects a digit next, \<open>digits_us False\<close> a digit, an underscore or
  the end.
\<close>

fun digits_us :: "bool \<Rightarrow> int \<Rightarrow> string \<Rightarrow> int option" where
  "digits_us need acc [] = (if need then None else Some acc)"
| "digits_us need acc (c # cs) =
     (if is_digit c then digits_us False (10 * acc + digit_val c) cs
      else if c = CHR ''_'' \<and> \<not> need then digits_us True acc cs
      else None)"

text \<open>\<open>int(s)\<close> for a string, base 10; \<open>None\<close> is \<open>ValueError\<close>.\<close>

definition py_int :: "string \<Rightarrow> int option" where
  "py_int s =
     (case strip s of
        [] \<Rightarrow> None
      | c # cs \<Rightarrow>
          if c = CHR ''-'' then map_option uminus (digits_us True 0 cs)
          else if c = CHR ''+'' then digits_us True 0 cs
          else digits_us True 0 (c # cs))"






subsection \<open>urllib.parse.parse_qsl\<close>

fun split_on :: "char \<Rightarrow> string \<Rightarrow> string list" where
  "split_on sep [] = [[]]"
| "split_on sep (c # cs) =
     (if c = sep then [] # split_on sep cs
      else (case split_on sep cs of [] \<Rightarrow> [[c]] | x # xs \<Rightarrow> (c # x) # xs))"

text \<open>\<open>s.partition('=')\<close> without the middle component.\<close>

definition partition_eq :: "string \<Rightarrow> string \<times> string" where
  "partition_eq s = (takeWhile (\<lambda>c. c \<noteq> CHR ''='') s, drop 1 (dropWhile (\<lambda>c. c \<noteq> CHR ''='') s))"

definition hexval :: "char \<Rightarrow> nat option" where
  "hexval c =
     (let n = (of_char c :: nat) in
      if 48 \<le> n \<and> n \<le> 57 then Some (n - 48)
      else if 65 \<le> n \<and> n \<le> 70 then Some (n - 55)
      else if 97 \<le> n \<and> n \<le> 102 then Some (n - 87)
      else None)"

fun unquote :: "string \<Rightarrow> string" where
  "unquote [] = []"
| "unquote [c] = [c]"
| "unquote [c, a] = [c, a]"
| "unquote (c # a # b # r) =
     (if c = CHR ''%'' \<and> hexval a \<noteq> None \<and> hexval b \<noteq> None
      then char_of (16 * the (hexval a) + the (hexval b)) # unquote r
      else c # unquote (a # b # r))"

definition unquote_plus :: "string \<Rightarrow> string" where
  "unquote_plus s = unquote (map (\<lambda>c. if c = CHR ''+'' then CHR '' '' else c) s)"

text \<open>\<open>parse_qsl(qs, keep_blank_values=True)\<close>: empty fields are skipped, a field
  without \<open>=\<close> has the empty value.\<close>

definition parse_field :: "string \<Rightarrow> (string \<times> string) list" where
  "parse_field name_value =
     (if name_value = [] then []
      else (case partition_eq name_value of (n, v) \<Rightarrow> [(unquote_plus n, unquote_plus v)]))"

definition parse_qsl :: "string \<Rightarrow> (string \<times> string) list" where
  "parse_qsl qs = (if qs = [] then [] else concat (map parse_field (split_on CHR ''&'' qs)))"

text \<open>\<open>dict(pairs)\<close>: a later pair replaces an earlier one with the same key.\<close>

definition dict :: "(string \<times> string) list \<Rightarrow> (string \<rightharpoonup> string)" where
  "dict pairs = map_of (rev pairs)"

section \<open>backend/app.py\<close>


definition derive_secret_key :: "pylib \<Rightarrow> string \<Rightarrow> string" where
  "derive_secret_key lib bot_token = hmac_sha256 lib ''WebAppData'' bot_token"

definition signed_pairs :: "(string \<times> string) list \<Rightarrow> (string \<times> string) list" where
  "signed_pairs pairs_all = filter (\<lambda>kv. fst kv \<noteq> ''hash'' \<and> fst kv \<noteq> ''signature'') pairs_all"

definition render_pairs :: "(string \<times> string) list \<Rightarrow> string" where
  "render_pairs pairs = join [CHR 0x0A] (map (\<lambda>kv. fst kv @ ''='' @ snd kv) pairs)"

definition build_data_check_string :: "string \<Rightarrow> string \<times> (string \<rightharpoonup> string)" where
  "build_data_check_string init_data =
     (let pairs_all = parse_qsl init_data;
          pairs = signed_pairs pairs_all;
          pairs = sort_key fst pairs;
          data_check_string = render_pairs pairs;
          params = dict pairs_all
      in (data_check_string, params))"

record verified =
  verified_user :: json
  verified_params :: "string \<rightharpoonup> string"

text \<open>\<open>params.get(k) or d\<close> for string values.\<close>

definition get_or :: "(string \<rightharpoonup> string) \<Rightarrow> string \<Rightarrow> string \<Rightarrow> string" where
  "get_or params k d = (case params k of None \<Rightarrow> d | Some v \<Rightarrow> if v = [] then d else v)"

text \<open>Lines 65 to 68: \<open>int(params.get("auth_date") or "0")\<close>, 0 on \<open>ValueError\<close>.\<close>

definition auth_date_of :: "(string \<rightharpoonup> string) \<Rightarrow> int" where
  "auth_date_of params = (case py_int (get_or params ''auth_date'' ''0'') of None \<Rightarrow> 0 | Some a \<Rightarrow> a)"

text \<open>Lines 73 to 79: the tolerant decode of the \<open>user\<close> parameter.\<close>

definition user_of :: "pylib \<Rightarrow> (string \<rightharpoonup> string) \<Rightarrow> json" where
  "user_of lib params =
     (case params ''user'' of
        None \<Rightarrow> JNull
      | Some user_raw \<Rightarrow>
          if user_raw = [] then JNull
          else (case json_loads lib user_raw of None \<Rightarrow> JNull | Some v \<Rightarrow> v))"

text \<open>\<open>now\<close> is the value of \<open>int(time.time())\<close> read at line 69.\<close>

definition verify_init_data :: "pylib \<Rightarrow> int \<Rightarrow> string \<Rightarrow> string \<Rightarrow> int \<Rightarrow> error + verified" where
  "verify_init_data lib now init_data bot_token ttl_sec =
     (case build_data_check_string init_data of (dcs, params) \<Rightarrow>
      let provided_hash = lower (get_or params ''hash'' '''') in
      if provided_hash = [] then Inl (HTTPException 400 ''no_hash'')
      else
        let secret_key = derive_secret_key lib bot_token;
            expected = hexdigest (hmac_sha256 lib secret_key dcs)
        in
        if expected \<noteq> provided_hash then Inl (HTTPException 401 ''bad_hash'')
        else
          let auth_date = auth_date_of params in
          if auth_date = 0 \<or> now - auth_date > ttl_sec then Inl (HTTPException 401 ''expired'')
          else Inr \<lparr>verified_user = user_of lib params, verified_params = params\<rparr>)"












subsection \<open>Derived notions used in the statements\<close>

text \<open>The returned mapping of a payload, and the payload passing both checks of lines
  56 to 63 (a hash is supplied and it is the expected one).\<close>

definition params_of :: "string \<Rightarrow> (string \<rightharpoonup> string)" where
  "params_of init_data = snd (build_data_check_string init_data)"

definition signature_ok :: "pylib \<Rightarrow> string \<Rightarrow> string \<Rightarrow> bool" where
  "signature_ok lib init_data bot_token =
     (case build_data_check_string init_data of (dcs, params) \<Rightarrow>
        lower (get_or params ''hash'' '''') \<noteq> [] \<and>
        lower (get_or params ''hash'' '''') =
          hexdigest (hmac_sha256 lib (derive_secret_key lib bot_token) dcs))"

subsection \<open>A sample library for concrete runs\<close>

text \<open>
  \<open>sample_hmac\<close> holds the values of HMAC-SHA256 at the keys and messages the concrete
  runs below need (bot token \<open>123456:TESTTOKEN\<close>); \<open>sample_json_loads\<close> holds
  \<open>json.loads\<close> at the strings they decode. Elsewhere both are arbitrary.
\<close>

definition sample_token :: string where
  "sample_token = ''123456:TESTTOKEN''"

text \<open>The bytes written as hexadecimal digits.\<close>

fun unhex :: "string \<Rightarrow> string" where
  "unhex (a # b # r) = char_of (16 * the (hexval a) + the (hexval b)) # unhex r"
| "unhex _ = []"

definition sample_key :: string where
  "sample_key = unhex ''2c477d1ae454d7696c369fc3d7ff9067003d98248b0c106e91fe7b0661ed3522''"

definition sample_hmac :: "string \<Rightarrow> string \<Rightarrow> string" where
  \<open>sample_hmac key msg =
     (if key = ''WebAppData'' \<and> msg = sample_token then sample_key
      else if key = sample_key then
        (if msg = ''auth_date=1000000000'' @ [CHR 0x0A] @ ''user={"id":42}''
         then unhex ''b511853bc615f5e7b6c0995b9b1c67b6524f46fd71563a92442cc131d934291f''
         else if msg = ''auth_date=1000000000''
         then unhex ''34883d239c6734a63031b2750495912ad5293f67196a2fc355b71e05142bc1b5''
         else if msg = ''auth_date=1000000000'' @ [CHR 0x0A] @ ''user={bad''
         then unhex ''e98bc48d1e27838afa683aacc7876ac0159de15c77ec24cd550f2b1b070585d6''
         else if msg = ''auth_date=1000000000'' @ [CHR 0x0A] @ ''user=42''
         then unhex ''cac3c0c7707268b0bfa15b358e35fe6543b6ee2f2a2ddfbdfeac24701785e5fd''
         else if msg = ''user={"id":42}''
         then unhex ''ed2ac48ffe367290acc1167ac8b5c73bb74338e28f46ee97a8fd73a46aa5341d''
         else if msg = ''auth_date=abc''
         then unhex ''27829352b09b655f85e9f437ceaeb917d0ff8493b399721fde3b0392c4500f9c''
         else if msg = ''auth_date=0''
         then unhex ''9371385862f872e8d8c7d7805ee617bef7b4bedc71350169607098bb057d059d''
         else if msg = ''auth_date=1000000001''
         then unhex ''870806d9d7037c40b3455c438b0feede60d177abf8515f8787089a1af4c1628e''
         else if msg = ''auth_date=1000000000'' @ [CHR 0x0A] @ ''user=0''
         then unhex ''9a230cbe52fa2cebfcba7ebb51675a31cea6d3aeed6fbce547f606d6421ab1f4''
         else if msg = ''a=1'' @ [CHR 0x0A] @ ''a=2'' @ [CHR 0x0A] @ ''auth_date=1000000000''
         then unhex ''cada0288150ea6cc16620dc759bcb3a398492e525379541254d0dfc0058f9871''
         else [])
      else [])\<close>

definition sample_json_loads :: "string \<Rightarrow> json option" where
  \<open>sample_json_loads s =
     (if s = ''{"id":42}'' then Some (JObj [(''id'', JInt 42)])
      else if s = ''42'' then Some (JInt 42)
      else if s = ''0'' then Some (JInt 0)
      else None)\<close>

definition sample_lib :: pylib where
  "sample_lib = \<lparr>hmac_sha256 = sample_hmac, json_loads = sample_json_loads,
     jwt_encode = (\<lambda>c secret. sub c @ ''.'' @ secret), py_repr = (\<lambda>v. ''?'')\<rparr>"

text \<open>Signed payloads: the spec's example, one without \<open>user\<close>, one with a malformed
  \<open>user\<close>, one whose \<open>user\<close> is a number, and three without a usable \<open>auth_date\<close>.\<close>

definition payload_id42 :: string where
  "payload_id42 = ''auth_date=1000000000&user=%7B%22id%22%3A42%7D&hash=b511853bc615f5e7b6c0995b9b1c67b6524f46fd71563a92442cc131d934291f''"



















section \<open>Properties\<close>



subsection \<open>The verifier, step by step\<close>

lemma params_of_eq: "params_of raw = dict (parse_qsl raw)"
  by (simp add: params_of_def build_data_check_string_def Let_def)

lemma verify_no_hash:
  "get_or (params_of raw) ''hash'' '''' = [] \<Longrightarrow>
   verify_init_data lib now raw tok ttl = Inl MissingSignature"
  by (auto simp add: verify_init_data_def params_of_def lower_def Let_def split: prod.splits)





subsection \<open>The sample payloads\<close>

lemma sig_id42: "signature_ok sample_lib payload_id42 sample_token"
  by code_simp










subsection \<open>Claims\<close>

text \<open>
  C3. When the \<open>hash\<close> parameter is absent or empty, \<open>verify_init_data\<close> fails with
  \<open>MissingSignature\<close> whatever the time, the TTL and \<open>auth_date\<close> are, so the failure is
  decided before any freshness check; the empty payload fails with \<open>MissingSignature\<close>.
\<close>

theorem missing_signature_first:
  "(params_of raw ''hash'' = None \<or> params_of raw ''hash'' = Some []
      \<longrightarrow> verify_init_data lib now raw tok ttl = Inl MissingSignature)
   \<and> verify_init_data lib now [] tok ttl = Inl MissingSignature"
proof -
  have "get_or (params_of []) ''hash'' '''' = []"
    by (simp add: params_of_eq parse_qsl_def dict_def get_or_def)
  then have e: "verify_init_data lib now [] tok ttl = Inl MissingSignature"
    by (rule verify_no_hash)
  have "params_of raw ''hash'' = None \<or> params_of raw ''hash'' = Some []
      \<Longrightarrow> get_or (params_of raw) ''hash'' '''' = []"
    by (auto simp add: get_or_def)
  then show ?thesis using e verify_no_hash by blast
qed

theorem missing_signature_first_witness:
  "params_of ''auth_date=0&hash='' ''hash'' = Some []
   \<and> verify_init_data sample_lib 5 ''auth_date=0&hash='' sample_token 10 = Inl MissingSignature"
proof -
  have h: "params_of ''auth_date=0&hash='' ''hash'' = Some []"
    by code_simp
  show ?thesis
    using h missing_signature_first [of "''auth_date=0&hash=''" sample_lib 5 sample_token 10]
    by simp
qed






subsection \<open>The issuer\<close>




















subsection \<open>The canonical string\<close>
















subsection \<open>Tampering\<close>







subsection \<open>Signing and verifying\<close>





















end
